theory Spec2Isabelle
  imports Main "HOL-Library.Sublist"
begin

section \<open>Python values used by the strategy generator\<close>

text \<open>
  The development embeds \<^verbatim>\<open>src/services/strategy/generate.py\<close>. A Python \<^verbatim>\<open>str\<close> is a
  \<^typ>\<open>string\<close> with one \<^typ>\<open>char\<close> per code point, so the model covers the code points
  below 256. Exceptions are values of \<open>py_error\<close>; a computation that may raise returns
  \<open>py_error + 'a\<close> with \<open>Inl\<close> for the exception, and one that also acts on the world
  returns that value together with the world it leaves, also when it raises.
\<close>

datatype py_error =
  IndexError | AttributeError | ValueError | APIError | OSError | PermissionError
  | FileNotFoundError | TimeoutExpired

text \<open>\<^verbatim>\<open>needle in hay\<close> on strings: \<open>needle\<close> occurs as a contiguous slice of \<open>hay\<close>.\<close>

fun str_in :: "string \<Rightarrow> string \<Rightarrow> bool" where
  "str_in needle [] = (needle = [])"
| "str_in needle (c # cs) = (prefix needle (c # cs) \<or> str_in needle cs)"

text \<open>
  \<^verbatim>\<open>s.split(sep)\<close>: the pieces between the non-overlapping occurrences of \<open>sep\<close>, found from
  the left. An empty separator raises \<^verbatim>\<open>ValueError\<close>.
\<close>

fun split_from :: "string \<Rightarrow> string \<Rightarrow> string \<Rightarrow> string list" where
  "split_from sep acc [] = [rev acc]"
| "split_from sep acc (c # cs) =
     (if sep \<noteq> [] \<and> prefix sep (c # cs)
      then rev acc # split_from sep [] (drop (length sep - 1) cs)
      else split_from sep (c # acc) cs)"

definition str_split :: "string \<Rightarrow> string \<Rightarrow> py_error + string list" where
  "str_split s sep = (if sep = [] then Inl ValueError else Inr (split_from sep [] s))"

text \<open>\<^verbatim>\<open>xs[i]\<close> for a non-negative index; out of range raises \<^verbatim>\<open>IndexError\<close>.\<close>

definition list_get :: "'a list \<Rightarrow> nat \<Rightarrow> py_error + 'a" where
  "list_get xs i = (if i < length xs then Inr (xs ! i) else Inl IndexError)"

text \<open>\<^verbatim>\<open>sep.join(xs)\<close>.\<close>

fun str_join :: "string \<Rightarrow> string list \<Rightarrow> string" where
  "str_join sep [] = []"
| "str_join sep [x] = x"
| "str_join sep (x # y # ys) = x @ sep @ str_join sep (y # ys)"

text \<open>
  \<^verbatim>\<open>str.isspace\<close> on one code point below 256: tab, line feed, vertical tab, form feed,
  carriage return, the separators 0x1C to 0x1F, space, next line (0x85) and no-break
  space (0xA0). \<^verbatim>\<open>s.strip()\<close> removes such characters from both ends.
\<close>

definition isspace :: "char \<Rightarrow> bool" where
  "isspace c = ((of_char c :: nat) \<in> {9, 10, 11, 12, 13, 28, 29, 30, 31, 32, 133, 160})"

definition strip :: "string \<Rightarrow> string" where
  "strip s = rev (dropWhile isspace (rev (dropWhile isspace s)))"

text \<open>\<^verbatim>\<open>str(i)\<close> for a non-negative integer: its decimal digits.\<close>

definition digit_char :: "nat \<Rightarrow> char" where
  "digit_char d = char_of (48 + d)"

fun str_of_nat :: "nat \<Rightarrow> string" where
  "str_of_nat n = (if n < 10 then [digit_char n] else str_of_nat (n div 10) @ [digit_char (n mod 10)])"

declare str_of_nat.simps [simp del]

section \<open>The data model\<close>

text \<open>
  The dictionary returned by \<^verbatim>\<open>generate_strategy\<close> (keys \<^verbatim>\<open>code\<close>, \<^verbatim>\<open>description\<close>,
  \<^verbatim>\<open>language\<close>, \<^verbatim>\<open>timestamp\<close>) and the dictionary returned by \<^verbatim>\<open>validate_strategy\<close>
  (keys \<^verbatim>\<open>valid\<close>, \<^verbatim>\<open>errors\<close>, \<^verbatim>\<open>warnings\<close>, \<^verbatim>\<open>score\<close>).
\<close>

record artifact =
  code :: string
  description :: string
  language :: string
  timestamp :: string

record report =
  valid :: bool
  errors :: "string list"
  warnings :: "string list"
  score :: int

text \<open>
  What the program reaches outside itself: the files by path, which paths accept a
  write, which paths accept a removal, the outcome of running \<^verbatim>\<open>pylint\<close> on a text (an
  exception such as \<^verbatim>\<open>FileNotFoundError\<close> or \<^verbatim>\<open>TimeoutExpired\<close>, or the return code),
  the successive readings that \<^verbatim>\<open>datetime.now().isoformat()\<close> gives with the number of
  readings taken so far, and the number of calls made to the generation service so far.
  A file is identified by the text of its path: \<^verbatim>\<open>..\<close> and links are not resolved.
\<close>

record world =
  files :: "string \<rightharpoonup> string"
  writable :: "string \<Rightarrow> bool"
  removable :: "string \<Rightarrow> bool"
  pylint :: "string \<Rightarrow> py_error + int"
  clock :: "nat \<Rightarrow> string"
  reads :: nat
  calls :: nat

text \<open>
  The request sent by \<^verbatim>\<open>client.messages.create\<close> and the content blocks of its answer.
  Only a text block has the attribute \<^verbatim>\<open>text\<close>. The service keeps state of its own, so a
  client maps the number of earlier calls and the request to the exception the call
  raises or to the content of the message it returns.
\<close>

record request =
  model :: string
  max_tokens :: int
  messages :: "(string \<times> string) list"
  system :: string

datatype content_block = TextBlock string | ToolUseBlock

type_synonym client = "nat \<Rightarrow> request \<Rightarrow> py_error + content_block list"

record generator =
  client :: "client option"
  output_dir :: string

text \<open>\<^verbatim>\<open>StrategyGenerator.__init__\<close>: the output directory is fixed.\<close>

definition StrategyGenerator :: "client option \<Rightarrow> generator" where
  "StrategyGenerator c = \<lparr>client = c, output_dir = ''/app/generated''\<rparr>"

section \<open>Files\<close>

text \<open>
  Paths as \<^verbatim>\<open>pathlib\<close> keeps them on a POSIX system. The root of a path text is \<^verbatim>\<open>//\<close> when
  it starts with exactly two slashes, \<^verbatim>\<open>/\<close> when it starts with one or with more than two,
  and empty otherwise. Its parts are the pieces between slashes without the empty ones
  and without \<^verbatim>\<open>.\<close>; \<^verbatim>\<open>..\<close> is kept. \<^verbatim>\<open>str\<close> of a path is the root followed by the parts
  joined with slashes, and \<^verbatim>\<open>.\<close> when there is neither. In \<^verbatim>\<open>Path(dir) / name\<close> a name with a
  root replaces \<open>dir\<close>; otherwise the parts of the name follow those of \<open>dir\<close>.
\<close>

definition path_root :: "string \<Rightarrow> string" where
  "path_root s =
     (if prefix ''//'' s \<and> \<not> prefix ''///'' s then ''//''
      else if prefix ''/'' s then ''/''
      else [])"

definition path_parts :: "string \<Rightarrow> string list" where
  "path_parts s = filter (\<lambda>c. c \<noteq> [] \<and> c \<noteq> ''.'') (split_from ''/'' [] s)"

definition path_str :: "string \<Rightarrow> string list \<Rightarrow> string" where
  "path_str root parts = (if root = [] \<and> parts = [] then ''.'' else root @ str_join ''/'' parts)"

definition path_join :: "string \<Rightarrow> string \<Rightarrow> string" where
  "path_join d name =
     (if path_root name \<noteq> [] then path_str (path_root name) (path_parts name)
      else path_str (path_root d) (path_parts d @ path_parts name))"

text \<open>
  \<^verbatim>\<open>Path.write_text\<close> raises where the store refuses the write and otherwise replaces the
  content of the file. \<^verbatim>\<open>Path.exists\<close>. \<^verbatim>\<open>Path.unlink\<close> raises on a missing file and where
  the store refuses the removal, and otherwise removes the file.
\<close>

definition write_text :: "world \<Rightarrow> string \<Rightarrow> string \<Rightarrow> (py_error + unit) \<times> world" where
  "write_text w p s =
     (if writable w p then (Inr (), w\<lparr>files := (files w)(p \<mapsto> s)\<rparr>) else (Inl OSError, w))"

definition path_exists :: "world \<Rightarrow> string \<Rightarrow> bool" where
  "path_exists w p = (files w p \<noteq> None)"

definition unlink :: "world \<Rightarrow> string \<Rightarrow> (py_error + unit) \<times> world" where
  "unlink w p =
     (if files w p = None then (Inl FileNotFoundError, w)
      else if removable w p then (Inr (), w\<lparr>files := (files w)(p := None)\<rparr>)
      else (Inl PermissionError, w))"

text \<open>
  \<^verbatim>\<open>datetime.now().isoformat()\<close> takes the next reading of the clock;
  \<^verbatim>\<open>client.messages.create\<close> is the next call to the service.
\<close>

definition datetime_now :: "world \<Rightarrow> string \<times> world" where
  "datetime_now w = (clock w (reads w), w\<lparr>reads := Suc (reads w)\<rparr>)"

definition messages_create ::
  "client \<Rightarrow> world \<Rightarrow> request \<Rightarrow> (py_error + content_block list) \<times> world" where
  "messages_create c w req = (c (calls w) req, w\<lparr>calls := Suc (calls w)\<rparr>)"

section \<open>The validator\<close>

definition initial_results :: report where
  "initial_results = \<lparr>valid = True, errors = [], warnings = [], score = 100\<rparr>"

text \<open>The checks of the \<^verbatim>\<open>python\<close> branch, lines 183 to 194, in the order of the source.\<close>

definition python_checks :: "string \<Rightarrow> report \<Rightarrow> report" where
  "python_checks src results =
     (let r1 = (if \<not> str_in ''AlgorithmImports'' src \<and> \<not> str_in ''QCAlgorithm'' src
                then results\<lparr>errors := errors results @ [''Missing QuantConnect imports''],
                              valid := False\<rparr>
                else results);
          r2 = (if \<not> str_in ''def Initialize('' src
                then r1\<lparr>errors := errors r1 @ [''Missing Initialize method''], valid := False\<rparr>
                else r1);
          r3 = (if \<not> str_in ''def OnData('' src
                then r2\<lparr>warnings := warnings r2 @ [''Missing OnData method''],
                         score := score r2 - 20\<rparr>
                else r2)
      in r3)"

text \<open>The checks of the \<^verbatim>\<open>csharp\<close> branch, lines 215 to 221.\<close>

definition csharp_checks :: "string \<Rightarrow> report \<Rightarrow> report" where
  "csharp_checks src results =
     (let r1 = (if \<not> str_in ''QCAlgorithm'' src
                then results\<lparr>errors := errors results @ [''Missing QCAlgorithm base class''],
                              valid := False\<rparr>
                else results);
          r2 = (if \<not> str_in ''Initialize()'' src
                then r1\<lparr>errors := errors r1 @ [''Missing Initialize method''], valid := False\<rparr>
                else r1)
      in r2)"

text \<open>
  The body of the \<^verbatim>\<open>try\<close> of lines 198 to 207: write the text to the temporary file,
  run \<^verbatim>\<open>pylint\<close> on it, and append a warning when the return code is not zero. Either call
  may raise.
\<close>

definition lint_try :: "world \<Rightarrow> string \<Rightarrow> string \<Rightarrow> report \<Rightarrow> (py_error + report) \<times> world" where
  "lint_try w temp_file src results =
     (case write_text w temp_file src of
        (Inl e, w1) \<Rightarrow> (Inl e, w1)
      | (Inr u, w1) \<Rightarrow>
          (case pylint w1 src of
             Inl e \<Rightarrow> (Inl e, w1)
           | Inr returncode \<Rightarrow>
               (Inr (if returncode \<noteq> 0
                     then results\<lparr>warnings := warnings results @ [''Linting issues found'']\<rparr>
                     else results), w1)))"

text \<open>
  Lines 197 to 212: the \<^verbatim>\<open>try\<close>, then \<^verbatim>\<open>except Exception: pass\<close>, which keeps the results
  as they were before the \<^verbatim>\<open>try\<close>, then the \<^verbatim>\<open>finally\<close>, which removes the temporary file
  when it exists. The removal stands outside the \<^verbatim>\<open>try\<close>: when it raises, the exception
  leaves the function.
\<close>

definition lint_step :: "generator \<Rightarrow> world \<Rightarrow> string \<Rightarrow> report \<Rightarrow> (py_error + report) \<times> world" where
  "lint_step g w src results =
     (let temp_file = path_join (output_dir g) ''temp_validate.py'';
          (outcome, w1) = lint_try w temp_file src results;
          results' = (case outcome of Inl e \<Rightarrow> results | Inr r \<Rightarrow> r)
      in if path_exists w1 temp_file then
           (case unlink w1 temp_file of
              (Inl e, w2) \<Rightarrow> (Inl e, w2)
            | (Inr u, w2) \<Rightarrow> (Inr results', w2))
         else (Inr results', w1))"

definition validate_strategy ::
  "generator \<Rightarrow> world \<Rightarrow> string \<Rightarrow> string \<Rightarrow> (py_error + report) \<times> world" where
  "validate_strategy g w src lang =
     (if lang = ''python'' then lint_step g w src (python_checks src initial_results)
      else if lang = ''csharp'' then (Inr (csharp_checks src initial_results), w)
      else (Inr initial_results, w))"

section \<open>The generator\<close>

text \<open>
  The fallback template for \<^verbatim>\<open>python\<close>, lines 94 to 125. Its only replacement field is
  \<^verbatim>\<open>{description}\<close>, so \<^verbatim>\<open>format\<close> yields the text before the field, the prompt, and the
  text after the field.
\<close>

definition mock_python_head :: string where
  \<open>mock_python_head =
     ''from AlgorithmImports import *\<newline>'' @
     ''\<newline>'' @
     ''class GeneratedStrategy(QCAlgorithm):\<newline>'' @
     ''    """\<newline>'' @
     ''    Auto-generated trading strategy\<newline>'' @
     ''    Description: ''\<close>

definition mock_python_tail :: string where
  \<open>mock_python_tail =
     ''\<newline>'' @
     ''    """\<newline>'' @
     ''\<newline>'' @
     ''    def Initialize(self):\<newline>'' @
     ''        self.SetStartDate(2023, 1, 1)\<newline>'' @
     ''        self.SetEndDate(2024, 1, 1)\<newline>'' @
     ''        self.SetCash(100000)\<newline>'' @
     ''\<newline>'' @
     ''        # Add equity\<newline>'' @
     ''        self.symbol = self.AddEquity("SPY", Resolution.Daily).Symbol\<newline>'' @
     ''\<newline>'' @
     ''        # Set up indicators\<newline>'' @
     ''        self.sma_fast = self.SMA(self.symbol, 20, Resolution.Daily)\<newline>'' @
     ''        self.sma_slow = self.SMA(self.symbol, 50, Resolution.Daily)\<newline>'' @
     ''\<newline>'' @
     ''    def OnData(self, data):\<newline>'' @
     ''        if not self.sma_fast.IsReady or not self.sma_slow.IsReady:\<newline>'' @
     ''            return\<newline>'' @
     ''\<newline>'' @
     ''        # Simple moving average crossover strategy\<newline>'' @
     ''        if self.sma_fast.Current.Value > self.sma_slow.Current.Value:\<newline>'' @
     ''            if not self.Portfolio[self.symbol].Invested:\<newline>'' @
     ''                self.SetHoldings(self.symbol, 1.0)\<newline>'' @
     ''        else:\<newline>'' @
     ''            if self.Portfolio[self.symbol].Invested:\<newline>'' @
     ''                self.Liquidate(self.symbol)\<newline>''\<close>

text \<open>
  The fallback template for every other language, lines 127 to 153: an f-string whose
  only replacement field is \<^verbatim>\<open>{prompt}\<close> and whose doubled braces stand for single ones.
\<close>

definition mock_csharp_head :: string where
  \<open>mock_csharp_head =
     ''// Auto-generated C# strategy\<newline>'' @
     ''// Description: ''\<close>

definition mock_csharp_tail :: string where
  \<open>mock_csharp_tail =
     ''\<newline>'' @
     ''\<newline>'' @
     ''namespace QuantConnect.Algorithm.CSharp\<newline>'' @
     ''{\<newline>'' @
     ''    public class GeneratedStrategy : QCAlgorithm\<newline>'' @
     ''    {\<newline>'' @
     ''        private Symbol _symbol;\<newline>'' @
     ''\<newline>'' @
     ''        public override void Initialize()\<newline>'' @
     ''        {\<newline>'' @
     ''            SetStartDate(2023, 1, 1);\<newline>'' @
     ''            SetEndDate(2024, 1, 1);\<newline>'' @
     ''            SetCash(100000);\<newline>'' @
     ''\<newline>'' @
     ''            _symbol = AddEquity("SPY", Resolution.Daily).Symbol;\<newline>'' @
     ''        }\<newline>'' @
     ''\<newline>'' @
     ''        public override void OnData(Slice data)\<newline>'' @
     ''        {\<newline>'' @
     ''            if (!Portfolio[_symbol].Invested)\<newline>'' @
     ''            {\<newline>'' @
     ''                SetHoldings(_symbol, 1.0);\<newline>'' @
     ''            }\<newline>'' @
     ''        }\<newline>'' @
     ''    }\<newline>'' @
     ''}''\<close>

definition generate_mock_strategy :: "world \<Rightarrow> string \<Rightarrow> string \<Rightarrow> artifact \<times> world" where
  "generate_mock_strategy w prompt lang =
     (let src = (if lang = ''python'' then mock_python_head @ prompt @ mock_python_tail
                 else mock_csharp_head @ prompt @ mock_csharp_tail);
          (stamp, w1) = datetime_now w
      in (\<lparr>code = src, description = prompt, language = lang, timestamp = stamp\<rparr>, w1))"

text \<open>The two f-strings of lines 44 to 60.\<close>

definition system_prompt :: "string \<Rightarrow> string" where
  \<open>system_prompt lang =
     ''You are an expert QuantConnect Lean trading strategy developer.\<newline>'' @
     ''Generate clean, production-ready '' @ lang @
     '' trading strategies that follow QuantConnect best practices.\<newline>'' @
     ''\<newline>'' @
     ''Include:\<newline>'' @
     ''- Proper initialization and configuration\<newline>'' @
     ''- Clear variable names and comments\<newline>'' @
     ''- Risk management (position sizing, stop losses)\<newline>'' @
     ''- Performance tracking\<newline>'' @
     ''- Error handling\<newline>'' @
     ''\<newline>'' @
     ''The strategy should be complete and runnable in the QuantConnect Lean engine.''\<close>

definition user_prompt :: "string \<Rightarrow> string \<Rightarrow> string" where
  \<open>user_prompt prompt lang =
     ''Generate a QuantConnect Lean trading strategy in '' @ lang @
     '' based on this description:\<newline>'' @
     ''\<newline>'' @ prompt @
     ''\<newline>'' @
     ''\<newline>'' @
     ''Provide only the code without explanation.''\<close>

text \<open>\<^verbatim>\<open>block.text\<close>: a block without that attribute raises \<^verbatim>\<open>AttributeError\<close>.\<close>

definition block_text :: "content_block \<Rightarrow> py_error + string" where
  "block_text b = (case b of TextBlock t \<Rightarrow> Inr t | ToolUseBlock \<Rightarrow> Inl AttributeError)"

text \<open>
  Lines 76 to 79: when the text holds a fence, keep what follows the first fence up to
  the next one, and drop its first line when it starts with a language tag.
\<close>

definition extract_code :: "string \<Rightarrow> py_error + string" where
  \<open>extract_code text =
     (if str_in ''```'' text then
        (case str_split text ''```'' of
           Inl e \<Rightarrow> Inl e
         | Inr parts \<Rightarrow>
             (case list_get parts 1 of
                Inl e \<Rightarrow> Inl e
              | Inr fenced \<Rightarrow>
                  if prefix ''python'' fenced \<or> prefix ''csharp'' fenced then
                    (case str_split fenced ''\<newline>'' of
                       Inl e \<Rightarrow> Inl e
                     | Inr ls \<Rightarrow> Inr (str_join ''\<newline>'' (drop 1 ls)))
                  else Inr fenced))
      else Inr text)\<close>

text \<open>The arguments of \<^verbatim>\<open>messages.create\<close>, lines 63 to 71.\<close>

definition service_request :: "string \<Rightarrow> string \<Rightarrow> request" where
  "service_request prompt lang =
     \<lparr>model = ''claude-sonnet-4-20250514'', max_tokens = 4096,
      messages = [(''user'', user_prompt prompt lang)],
      system = system_prompt lang\<rparr>"

text \<open>The body of the \<^verbatim>\<open>try\<close> of lines 63 to 86.\<close>

definition call_service ::
  "client \<Rightarrow> world \<Rightarrow> string \<Rightarrow> string \<Rightarrow> (py_error + artifact) \<times> world" where
  "call_service c w prompt lang =
     (case messages_create c w (service_request prompt lang) of
        (Inl e, w1) \<Rightarrow> (Inl e, w1)
      | (Inr content, w1) \<Rightarrow>
          (case list_get content 0 of
             Inl e \<Rightarrow> (Inl e, w1)
           | Inr block \<Rightarrow>
               (case block_text block of
                  Inl e \<Rightarrow> (Inl e, w1)
                | Inr text \<Rightarrow>
                    (case extract_code text of
                       Inl e \<Rightarrow> (Inl e, w1)
                     | Inr src \<Rightarrow>
                         (let (stamp, w2) = datetime_now w1
                          in (Inr \<lparr>code = strip src, description = prompt, language = lang,
                                    timestamp = stamp\<rparr>, w2))))))"

text \<open>
  Lines 41 to 89: without a client the fallback answers; otherwise the \<^verbatim>\<open>try\<close> runs and
  \<^verbatim>\<open>except Exception\<close> answers with the fallback.
\<close>

definition generate_strategy ::
  "generator \<Rightarrow> world \<Rightarrow> string \<Rightarrow> string \<Rightarrow> (py_error + artifact) \<times> world" where
  "generate_strategy g w prompt lang =
     (case client g of
        None \<Rightarrow> (let (a, w1) = generate_mock_strategy w prompt lang in (Inr a, w1))
      | Some c \<Rightarrow>
          (case call_service c w prompt lang of
             (Inr strategy, w1) \<Rightarrow> (Inr strategy, w1)
           | (Inl e, w1) \<Rightarrow>
               (let (a, w2) = generate_mock_strategy w1 prompt lang in (Inr a, w2))))"

section \<open>Persistence\<close>

text \<open>
  \<^verbatim>\<open>save_strategy\<close>, lines 227 to 241. \<^verbatim>\<open>json.dumps\<close> belongs to the Python library and is
  a parameter: it receives the dictionary as the list of its items in insertion order.
  A failed write raises out of the function.
\<close>

definition save_strategy ::
  "((string \<times> string) list \<Rightarrow> string) \<Rightarrow> generator \<Rightarrow> world \<Rightarrow> artifact \<Rightarrow> string
     \<Rightarrow> (py_error + string) \<times> world" where
  "save_strategy json_dumps g w strategy filename =
     (let ext = (if language strategy = ''python'' then ''py'' else ''cs'');
          filepath = path_join (output_dir g) (filename @ ''.'' @ ext)
      in case write_text w filepath (code strategy) of
           (Inl e, w1) \<Rightarrow> (Inl e, w1)
         | (Inr u, w1) \<Rightarrow>
             (let meta_path = path_join (output_dir g) (filename @ ''.json'')
              in case write_text w1 meta_path
                        (json_dumps [(''description'', description strategy),
                                     (''language'', language strategy),
                                     (''timestamp'', timestamp strategy),
                                     (''filename'', filepath)]) of
                   (Inl e, w2) \<Rightarrow> (Inl e, w2)
                 | (Inr u', w2) \<Rightarrow> (Inr filepath, w2)))"

section \<open>The driver\<close>

text \<open>
  What \<^verbatim>\<open>main\<close> reports for one prompt: the path and the score of a saved strategy, or
  the errors of a rejected one.
\<close>

datatype outcome = Saved string int | Rejected "string list"

text \<open>
  The body of the loop of lines 259 to 272, for the prompt numbered \<open>i\<close>. No call in it
  is guarded, so an exception of \<^verbatim>\<open>validate_strategy\<close> or \<^verbatim>\<open>save_strategy\<close> leaves the loop.
\<close>

definition process_prompt ::
  "((string \<times> string) list \<Rightarrow> string) \<Rightarrow> generator \<Rightarrow> world \<Rightarrow> nat \<Rightarrow> string
     \<Rightarrow> (py_error + outcome) \<times> world" where
  "process_prompt json_dumps g w i prompt =
     (case generate_strategy g w prompt ''python'' of
        (Inl e, w1) \<Rightarrow> (Inl e, w1)
      | (Inr strategy, w1) \<Rightarrow>
          (case validate_strategy g w1 (code strategy) (language strategy) of
             (Inl e, w2) \<Rightarrow> (Inl e, w2)
           | (Inr validation, w2) \<Rightarrow>
               if valid validation then
                 (case save_strategy json_dumps g w2 strategy (''strategy_'' @ str_of_nat i) of
                    (Inl e, w3) \<Rightarrow> (Inl e, w3)
                  | (Inr filepath, w3) \<Rightarrow> (Inr (Saved filepath (score validation)), w3))
               else (Inr (Rejected (errors validation)), w2)))"

fun main_loop ::
  "((string \<times> string) list \<Rightarrow> string) \<Rightarrow> generator \<Rightarrow> world \<Rightarrow> nat \<Rightarrow> string list
     \<Rightarrow> (py_error + outcome list) \<times> world" where
  "main_loop json_dumps g w i [] = (Inr [], w)"
| "main_loop json_dumps g w i (prompt # rest) =
     (case process_prompt json_dumps g w i prompt of
        (Inl e, w1) \<Rightarrow> (Inl e, w1)
      | (Inr out, w1) \<Rightarrow>
          (case main_loop json_dumps g w1 (Suc i) rest of
             (Inl e, w2) \<Rightarrow> (Inl e, w2)
           | (Inr outs, w2) \<Rightarrow> (Inr (out # outs), w2)))"

text \<open>\<^verbatim>\<open>main\<close> runs the loop on its three prompts, numbered from 1.\<close>

definition main_prompts :: "string list" where
  "main_prompts =
     [''Create a momentum strategy using RSI indicator with 30/70 thresholds'',
      ''Generate a mean reversion strategy using Bollinger Bands'',
      ''Build a trend following strategy using MACD crossovers'']"

definition main ::
  "((string \<times> string) list \<Rightarrow> string) \<Rightarrow> generator \<Rightarrow> world
     \<Rightarrow> (py_error + outcome list) \<times> world" where
  "main json_dumps g w = main_loop json_dumps g w 1 main_prompts"

text \<open>
  Names for the paths the driver touches and for the dictionary that \<^verbatim>\<open>save_strategy\<close>
  serialises.
\<close>

abbreviation temp_path :: "generator \<Rightarrow> string" where
  "temp_path g \<equiv> path_join (output_dir g) ''temp_validate.py''"



abbreviation sidecar_items :: "artifact \<Rightarrow> string \<Rightarrow> (string \<times> string) list" where
  "sidecar_items a p \<equiv>
     [(''description'', description a), (''language'', language a),
      (''timestamp'', timestamp a), (''filename'', p)]"


section \<open>Environments\<close>

text \<open>
  The advisory lint has no effect on a text when the temporary file cannot be written
  or \<^verbatim>\<open>subprocess.run\<close> raises (the tool is not installed, or it runs out of time).
\<close>

definition lint_unavailable :: "generator \<Rightarrow> world \<Rightarrow> string \<Rightarrow> bool" where
  "lint_unavailable g w src =
     (\<not> writable w (path_join (output_dir g) ''temp_validate.py'') \<or> isl (pylint w src))"

text \<open>
  Concrete worlds. Two have an empty store that accepts writes and removals: one where
  \<^verbatim>\<open>pylint\<close> is not installed, one where it exits with status 1 on every text. One holds a
  stale temporary file and refuses every write but accepts removals. One holds a stale
  temporary file that can be written but not removed. One has an empty store that
  refuses every write, one an empty store that refuses only the source file of the second
  strategy. The clock has three readings, then repeats the last.
\<close>

definition example_clock :: "nat \<Rightarrow> string" where
  "example_clock n =
     (if n = 0 then ''2024-01-01T00:00:00''
      else if n = 1 then ''2024-01-01T00:00:07''
      else ''2024-01-01T00:00:15'')"

definition world_without_pylint :: world where
  "world_without_pylint =
     \<lparr>files = Map.empty, writable = (\<lambda>p. True), removable = (\<lambda>p. True),
      pylint = (\<lambda>s. Inl FileNotFoundError), clock = example_clock, reads = 0, calls = 0\<rparr>"

definition world_with_strict_pylint :: world where
  "world_with_strict_pylint =
     \<lparr>files = Map.empty, writable = (\<lambda>p. True), removable = (\<lambda>p. True),
      pylint = (\<lambda>s. Inr 1), clock = example_clock, reads = 0, calls = 0\<rparr>"

definition world_read_only :: world where
  "world_read_only =
     \<lparr>files = [''/app/generated/temp_validate.py'' \<mapsto> ''stale''], writable = (\<lambda>p. False),
      removable = (\<lambda>p. True), pylint = (\<lambda>s. Inr 1), clock = example_clock, reads = 0,
      calls = 0\<rparr>"

definition world_keeping_temp :: world where
  "world_keeping_temp =
     \<lparr>files = [''/app/generated/temp_validate.py'' \<mapsto> ''stale''], writable = (\<lambda>p. True),
      removable = (\<lambda>p. False), pylint = (\<lambda>s. Inr 0), clock = example_clock, reads = 0,
      calls = 0\<rparr>"



text \<open>A stand-in for \<^verbatim>\<open>json.dumps\<close> that writes each item as \<open>key=value;\<close>.\<close>

definition flat_dumps :: "(string \<times> string) list \<Rightarrow> string" where
  "flat_dumps d = concat (map (\<lambda>(k, v). k @ ''='' @ v @ '';'') d)"


definition client_raising :: client where
  "client_raising = (\<lambda>n req. Inl APIError)"





section \<open>Properties of the validator\<close>

lemma python_checks_score:
  "score (python_checks src r) = (if str_in ''def OnData('' src then score r else score r - 20)"
  by (simp add: python_checks_def Let_def)

lemma csharp_checks_score: "score (csharp_checks src r) = score r"
  by (simp add: csharp_checks_def Let_def)

lemma python_checks_initial:
  "python_checks src initial_results =
     \<lparr>valid = ((str_in ''AlgorithmImports'' src \<or> str_in ''QCAlgorithm'' src)
                \<and> str_in ''def Initialize('' src),
      errors = (if str_in ''AlgorithmImports'' src \<or> str_in ''QCAlgorithm'' src then []
                else [''Missing QuantConnect imports''])
               @ (if str_in ''def Initialize('' src then [] else [''Missing Initialize method'']),
      warnings = (if str_in ''def OnData('' src then [] else [''Missing OnData method'']),
      score = (if str_in ''def OnData('' src then 100 else 80)\<rparr>"
  by (simp add: python_checks_def initial_results_def Let_def)

lemma csharp_checks_initial:
  "csharp_checks src initial_results =
     \<lparr>valid = (str_in ''QCAlgorithm'' src \<and> str_in ''Initialize()'' src),
      errors = (if str_in ''QCAlgorithm'' src then [] else [''Missing QCAlgorithm base class''])
               @ (if str_in ''Initialize()'' src then [] else [''Missing Initialize method'']),
      warnings = [],
      score = 100\<rparr>"
  by (simp add: csharp_checks_def initial_results_def Let_def)

text \<open>
  The lint step, path by path: the write accepted and the removal accepted or refused;
  the write refused and no stale file, a stale file removed, or a stale file that stays.
\<close>

lemma lint_step_cases:
  "lint_step g w src r =
     (if writable w (temp_path g) then
        (if removable w (temp_path g) then
           (Inr (case pylint w src of
                   Inl e \<Rightarrow> r
                 | Inr returncode \<Rightarrow>
                     if returncode \<noteq> 0
                     then r\<lparr>warnings := warnings r @ [''Linting issues found'']\<rparr> else r),
            w\<lparr>files := (files w)(temp_path g := None)\<rparr>)
         else (Inl PermissionError, w\<lparr>files := (files w)(temp_path g \<mapsto> src)\<rparr>))
      else if files w (temp_path g) = None then (Inr r, w)
      else if removable w (temp_path g) then
        (Inr r, w\<lparr>files := (files w)(temp_path g := None)\<rparr>)
      else (Inl PermissionError, w))"
  by (simp add: lint_step_def lint_try_def write_text_def path_exists_def unlink_def Let_def
      split: sum.splits)

lemma lint_step_report:
  assumes "fst (lint_step g w src r) = Inr r'"
  shows "valid r' = valid r" and "errors r' = errors r" and "score r' = score r"
    and "warnings r' = warnings r \<or> warnings r' = warnings r @ [''Linting issues found'']"
    and "lint_unavailable g w src \<Longrightarrow> r' = r"
    and "files (snd (lint_step g w src r)) (temp_path g) = None"
  using assms
  by (auto simp: lint_step_cases lint_unavailable_def isl_def split: if_splits sum.splits)

lemma lint_step_returns:
  "removable w (temp_path g) \<Longrightarrow> \<exists>r'. fst (lint_step g w src r) = Inr r'"
  by (simp add: lint_step_cases)


lemma lint_step_env:
  "writable (snd (lint_step g w src r)) = writable w"
  "removable (snd (lint_step g w src r)) = removable w"
  "pylint (snd (lint_step g w src r)) = pylint w"
  "clock (snd (lint_step g w src r)) = clock w"
  "reads (snd (lint_step g w src r)) = reads w"
  "calls (snd (lint_step g w src r)) = calls w"
  by (simp_all add: lint_step_cases)


lemma validate_strategy_env:
  "writable (snd (validate_strategy g w src lang)) = writable w"
  "removable (snd (validate_strategy g w src lang)) = removable w"
  "pylint (snd (validate_strategy g w src lang)) = pylint w"
  "clock (snd (validate_strategy g w src lang)) = clock w"
  "reads (snd (validate_strategy g w src lang)) = reads w"
  "calls (snd (validate_strategy g w src lang)) = calls w"
  by (simp_all add: validate_strategy_def lint_step_env)


lemma validate_strategy_returns:
  "removable w (temp_path g) \<Longrightarrow> \<exists>r. fst (validate_strategy g w src lang) = Inr r"
  by (simp add: validate_strategy_def lint_step_returns)

lemma validate_strategy_returns_if:
  "lang \<noteq> ''python'' \<or> removable w (temp_path g) \<Longrightarrow>
   \<exists>r. fst (validate_strategy g w src lang) = Inr r"
  by (auto simp: validate_strategy_def lint_step_returns)

lemma validate_strategy_unavailable:
  assumes "lint_unavailable g w src" and "fst (validate_strategy g w src lang) = Inr r"
  shows "r = (if lang = ''python'' then python_checks src initial_results
              else if lang = ''csharp'' then csharp_checks src initial_results
              else initial_results)"
  using assms lint_step_report(5) [of g w src "python_checks src initial_results" r]
  by (auto simp: validate_strategy_def split: if_splits)

text \<open>In a world without \<^verbatim>\<open>pylint\<close> that accepts writes and removals the checks decide.\<close>

lemma validate_python_without_pylint:
  "validate_strategy (StrategyGenerator c) world_without_pylint src ''python''
     = (Inr (python_checks src initial_results), world_without_pylint)"
  by (simp add: validate_strategy_def lint_step_cases world_without_pylint_def)

text \<open>
  Claim C9. For every source text and language the score of a report that
  \<^verbatim>\<open>validate_strategy\<close> returns is 100 or 80: it starts at 100, and only the missing
  \<^verbatim>\<open>OnData\<close> rule of the python branch subtracts, 20 and once. It is 80 exactly for python
  text without \<^verbatim>\<open>def OnData(\<close>. A report is returned whenever the language is not python
  or the store accepts the removal of the temporary lint file.
\<close>

theorem validate_strategy_score_100_or_80:
  "(lang \<noteq> ''python'' \<or> removable w (temp_path g) \<longrightarrow>
      (\<exists>r. fst (validate_strategy g w src lang) = Inr r))
   \<and> (\<forall>r. fst (validate_strategy g w src lang) = Inr r \<longrightarrow>
          (score r = 100 \<or> score r = 80)
          \<and> (score r = 80) = (lang = ''python'' \<and> \<not> str_in ''def OnData('' src))"
proof -
  have "score r = (if lang = ''python'' \<and> \<not> str_in ''def OnData('' src then 80 else 100)"
    if "fst (validate_strategy g w src lang) = Inr r" for r
    using that lint_step_report(3) [of g w src "python_checks src initial_results" r]
    by (auto simp: validate_strategy_def python_checks_score csharp_checks_score
        initial_results_def split: if_splits)
  then have "\<forall>r. fst (validate_strategy g w src lang) = Inr r \<longrightarrow>
      (score r = 100 \<or> score r = 80)
      \<and> (score r = 80) = (lang = ''python'' \<and> \<not> str_in ''def OnData('' src)"
    by simp
  then show ?thesis
    using validate_strategy_returns_if [of lang w g src] by blast
qed

theorem validate_strategy_score_100_or_80_witness:
  "removable world_with_strict_pylint (temp_path (StrategyGenerator None))
   \<and> fst (validate_strategy (StrategyGenerator None) world_with_strict_pylint ''import os''
     ''python'')
     = Inr \<lparr>valid = False,
            errors = [''Missing QuantConnect imports'', ''Missing Initialize method''],
            warnings = [''Missing OnData method'', ''Linting issues found''], score = 80\<rparr>
   \<and> \<not> str_in ''def OnData('' ''import os''"
proof -
  let ?g = "StrategyGenerator None"
  let ?w = "world_with_strict_pylint"
  have rem: "removable ?w (temp_path ?g)"
    by (simp add: world_with_strict_pylint_def)
  then have "''python'' \<noteq> ''python'' \<or> removable ?w (temp_path ?g)"
    by simp
  from validate_strategy_score_100_or_80 [THEN conjunct1, rule_format, OF this]
  obtain r where ret: "fst (validate_strategy ?g ?w ''import os'' ''python'') = Inr r"
    by blast
  from validate_strategy_score_100_or_80 [THEN conjunct2, rule_format, OF ret]
  have score: "(score r = 100 \<or> score r = 80)
      \<and> (score r = 80) = (''python'' = ''python'' \<and> \<not> str_in ''def OnData('' ''import os'')" .
  have run: "fst (validate_strategy ?g ?w ''import os'' ''python'')
      = Inr \<lparr>valid = False,
             errors = [''Missing QuantConnect imports'', ''Missing Initialize method''],
             warnings = [''Missing OnData method'', ''Linting issues found''], score = 80\<rparr>"
    by (simp add: validate_strategy_def lint_step_cases world_with_strict_pylint_def
        python_checks_initial)
  with ret score have "\<not> str_in ''def OnData('' ''import os''"
    by simp
  with rem run show ?thesis
    by blast
qed




text \<open>
  Claim C10. For a language other than \<^verbatim>\<open>python\<close> and \<^verbatim>\<open>csharp\<close> no rule applies:
  \<^verbatim>\<open>validate_strategy\<close> returns the report that is valid with no errors, no warnings and
  score 100, whatever the source text, and the world is untouched.
\<close>

theorem validate_strategy_other_language:
  assumes "lang \<noteq> ''python''" and "lang \<noteq> ''csharp''"
  shows "validate_strategy g w src lang
           = (Inr \<lparr>valid = True, errors = [], warnings = [], score = 100\<rparr>, w)"
  using assms by (simp add: validate_strategy_def initial_results_def)

theorem validate_strategy_other_language_witness:
  "''rust'' \<noteq> ''python'' \<and> ''rust'' \<noteq> ''csharp''
   \<and> validate_strategy (StrategyGenerator None) world_keeping_temp ''fn main() {}'' ''rust''
       = (Inr \<lparr>valid = True, errors = [], warnings = [], score = 100\<rparr>, world_keeping_temp)"
  using validate_strategy_other_language [of "''rust''" "StrategyGenerator None"
      world_keeping_temp "''fn main() {}''"]
  by simp

text \<open>
  Claim C8. With the advisory lint unavailable the report depends on the source text
  and the language only: two calls on the same input that return a report return the
  same one, in any two such worlds and for any two generators, and in particular when
  the second call starts from the world the first one left. Where the stores accept the
  removal of the temporary lint file, all these calls return, with one and the same
  report.
\<close>

theorem validate_strategy_deterministic:
  assumes "lint_unavailable g1 w1 src" and "lint_unavailable g2 w2 src"
  shows "(\<forall>r1 r2. fst (validate_strategy g1 w1 src lang) = Inr r1
            \<and> fst (validate_strategy g2 w2 src lang) = Inr r2 \<longrightarrow> r1 = r2)
         \<and> (\<forall>r1 r2. fst (validate_strategy g1 w1 src lang) = Inr r1
            \<and> fst (validate_strategy g1 (snd (validate_strategy g1 w1 src lang)) src lang)
                = Inr r2 \<longrightarrow> r1 = r2)
         \<and> (removable w1 (temp_path g1) \<and> removable w2 (temp_path g2) \<longrightarrow>
              (\<exists>r. fst (validate_strategy g1 w1 src lang) = Inr r
                    \<and> fst (validate_strategy g2 w2 src lang) = Inr r
                    \<and> fst (validate_strategy g1 (snd (validate_strategy g1 w1 src lang))
                          src lang) = Inr r))"
proof -
  let ?w = "snd (validate_strategy g1 w1 src lang)"
  have again: "lint_unavailable g1 ?w src"
    using assms(1) by (simp add: lint_unavailable_def validate_strategy_env)
  have same: "(\<forall>r1 r2. fst (validate_strategy g1 w1 src lang) = Inr r1
            \<and> fst (validate_strategy g2 w2 src lang) = Inr r2 \<longrightarrow> r1 = r2)
         \<and> (\<forall>r1 r2. fst (validate_strategy g1 w1 src lang) = Inr r1
            \<and> fst (validate_strategy g1 ?w src lang) = Inr r2 \<longrightarrow> r1 = r2)"
    using again assms validate_strategy_unavailable by blast
  have "\<exists>r. fst (validate_strategy g1 w1 src lang) = Inr r
            \<and> fst (validate_strategy g2 w2 src lang) = Inr r
            \<and> fst (validate_strategy g1 ?w src lang) = Inr r"
    if rem: "removable w1 (temp_path g1) \<and> removable w2 (temp_path g2)"
  proof -
    have "removable ?w (temp_path g1)"
      using rem by (simp add: validate_strategy_env)
    then obtain r3 where three: "fst (validate_strategy g1 ?w src lang) = Inr r3"
      using validate_strategy_returns by blast
    from rem obtain r1 r2 where one: "fst (validate_strategy g1 w1 src lang) = Inr r1"
      and two: "fst (validate_strategy g2 w2 src lang) = Inr r2"
      using validate_strategy_returns by blast
    from same one two three have "r2 = r1" and "r3 = r1"
      by blast+
    with one two three show ?thesis
      by blast
  qed
  with same show ?thesis
    by blast
qed

theorem validate_strategy_deterministic_witness:
  "lint_unavailable (StrategyGenerator None) world_without_pylint ''import os''
   \<and> lint_unavailable (StrategyGenerator (Some client_raising)) world_read_only ''import os''
   \<and> removable world_without_pylint (temp_path (StrategyGenerator None))
   \<and> removable world_read_only (temp_path (StrategyGenerator (Some client_raising)))
   \<and> fst (validate_strategy (StrategyGenerator None) world_without_pylint ''import os''
         ''python'')
       = Inr \<lparr>valid = False,
              errors = [''Missing QuantConnect imports'', ''Missing Initialize method''],
              warnings = [''Missing OnData method''], score = 80\<rparr>
   \<and> fst (validate_strategy (StrategyGenerator (Some client_raising)) world_read_only
         ''import os'' ''python'')
       = fst (validate_strategy (StrategyGenerator None) world_without_pylint ''import os''
           ''python'')"
proof -
  let ?r = "\<lparr>valid = False,
      errors = [''Missing QuantConnect imports'', ''Missing Initialize method''],
      warnings = [''Missing OnData method''], score = 80\<rparr>"
  have a: "lint_unavailable (StrategyGenerator None) world_without_pylint ''import os''"
    by (simp add: lint_unavailable_def world_without_pylint_def)
  have b: "lint_unavailable (StrategyGenerator (Some client_raising)) world_read_only
      ''import os''"
    by (simp add: lint_unavailable_def world_read_only_def)
  have rem: "removable world_without_pylint (temp_path (StrategyGenerator None))"
    "removable world_read_only (temp_path (StrategyGenerator (Some client_raising)))"
    by (simp_all add: world_without_pylint_def world_read_only_def)
  have one: "fst (validate_strategy (StrategyGenerator None) world_without_pylint ''import os''
      ''python'') = Inr ?r"
    by (simp add: validate_python_without_pylint python_checks_initial)
  from validate_strategy_deterministic [OF a b, of "''python''"] rem
  obtain r where "fst (validate_strategy (StrategyGenerator None) world_without_pylint
      ''import os'' ''python'') = Inr r"
    and "fst (validate_strategy (StrategyGenerator (Some client_raising)) world_read_only
      ''import os'' ''python'') = Inr r"
    by blast
  with a b rem one show ?thesis by simp
qed

text \<open>
  Claim C4, amended. For python text that contains \<^verbatim>\<open>def Initialize(\<close> and lacks
  \<^verbatim>\<open>def OnData(\<close>, with the advisory lint unavailable, the report returned has score 80
  and the only warning \<^verbatim>\<open>Missing OnData method\<close>; it is valid exactly when the text also
  contains \<^verbatim>\<open>AlgorithmImports\<close> or \<^verbatim>\<open>QCAlgorithm\<close>. A report is returned whenever the store
  accepts the removal of the temporary lint file.
\<close>

theorem validate_python_without_ondata:
  assumes "str_in ''def Initialize('' src" and "\<not> str_in ''def OnData('' src"
    and "lint_unavailable g w src"
  shows "(removable w (temp_path g) \<longrightarrow>
            (\<exists>r. fst (validate_strategy g w src ''python'') = Inr r))
         \<and> (\<forall>r. fst (validate_strategy g w src ''python'') = Inr r \<longrightarrow>
                score r = 80 \<and> warnings r = [''Missing OnData method'']
                \<and> valid r = (str_in ''AlgorithmImports'' src \<or> str_in ''QCAlgorithm'' src))"
proof -
  have "score r = 80 \<and> warnings r = [''Missing OnData method'']
      \<and> valid r = (str_in ''AlgorithmImports'' src \<or> str_in ''QCAlgorithm'' src)"
    if "fst (validate_strategy g w src ''python'') = Inr r" for r
    using assms(1,2) validate_strategy_unavailable [OF assms(3) that]
    by (simp add: python_checks_initial)
  then show ?thesis
    using validate_strategy_returns [of w g src "''python''"] by blast
qed

theorem validate_python_without_ondata_witness:
  "str_in ''def Initialize('' ''class A(QCAlgorithm): def Initialize(self): pass''
   \<and> \<not> str_in ''def OnData('' ''class A(QCAlgorithm): def Initialize(self): pass''
   \<and> lint_unavailable (StrategyGenerator None) world_without_pylint
         ''class A(QCAlgorithm): def Initialize(self): pass''
   \<and> removable world_without_pylint (temp_path (StrategyGenerator None))
   \<and> fst (validate_strategy (StrategyGenerator None) world_without_pylint
         ''class A(QCAlgorithm): def Initialize(self): pass'' ''python'')
       = Inr \<lparr>valid = True, errors = [], warnings = [''Missing OnData method''], score = 80\<rparr>"
proof -
  let ?g = "StrategyGenerator None"
  let ?w = "world_without_pylint"
  let ?src = "''class A(QCAlgorithm): def Initialize(self): pass''"
  have a: "str_in ''def Initialize('' ?src" by simp
  have b: "\<not> str_in ''def OnData('' ?src" by simp
  have c: "lint_unavailable ?g ?w ?src"
    by (simp add: lint_unavailable_def world_without_pylint_def)
  have d: "str_in ''QCAlgorithm'' ?src" by simp
  have rem: "removable ?w (temp_path ?g)"
    by (simp add: world_without_pylint_def)
  from validate_python_without_ondata [OF a b c, THEN conjunct1, rule_format, OF rem]
  obtain r where ret: "fst (validate_strategy ?g ?w ?src ''python'') = Inr r"
    by blast
  note facts = validate_python_without_ondata [OF a b c, THEN conjunct2, rule_format, OF ret]
  have run: "fst (validate_strategy ?g ?w ?src ''python'')
      = Inr (python_checks ?src initial_results)"
    by (simp add: validate_python_without_pylint)
  with ret have r: "r = python_checks ?src initial_results"
    by simp
  have errs: "errors (python_checks ?src initial_results) = []"
    using a d by (simp add: python_checks_initial)
  from facts errs d
  have "python_checks ?src initial_results
      = \<lparr>valid = True, errors = [], warnings = [''Missing OnData method''], score = 80\<rparr>"
    unfolding r by (cases "python_checks ?src initial_results") simp
  with a b c rem run show ?thesis by simp
qed

text \<open>
  The claim as stated fails on a text with the initialization entry point and without
  either import marker: the import rule rejects it.
\<close>

theorem validate_python_without_ondata_counterexample:
  "str_in ''def Initialize('' ''def Initialize(self): pass''
   \<and> \<not> str_in ''def OnData('' ''def Initialize(self): pass''
   \<and> lint_unavailable (StrategyGenerator None) world_without_pylint ''def Initialize(self): pass''
   \<and> fst (validate_strategy (StrategyGenerator None) world_without_pylint
         ''def Initialize(self): pass'' ''python'')
       = Inr \<lparr>valid = False, errors = [''Missing QuantConnect imports''],
              warnings = [''Missing OnData method''], score = 80\<rparr>"
proof -
  let ?src = "''def Initialize(self): pass''"
  have c: "lint_unavailable (StrategyGenerator None) world_without_pylint ?src"
    by (simp add: lint_unavailable_def world_without_pylint_def)
  have marks: "\<not> str_in ''AlgorithmImports'' ?src" "\<not> str_in ''QCAlgorithm'' ?src"
    "str_in ''def Initialize('' ?src" "\<not> str_in ''def OnData('' ?src"
    by simp_all
  have "fst (validate_strategy (StrategyGenerator None) world_without_pylint ?src ''python'')
      = Inr \<lparr>valid = False, errors = [''Missing QuantConnect imports''],
             warnings = [''Missing OnData method''], score = 80\<rparr>"
    using marks by (simp add: validate_python_without_pylint python_checks_initial)
  with c marks show ?thesis by simp
qed

text \<open>
  Claim C3, amended. No warning invalidates: a report returned is valid exactly when it
  has no error. Each \<^verbatim>\<open>Missing OnData method\<close> warning costs 20 points and the
  \<^verbatim>\<open>Linting issues found\<close> warning costs nothing, so the score is 100 minus 20 for each
  \<^verbatim>\<open>Missing OnData method\<close> warning present; there is no other warning. A report is
  returned whenever the language is not python or the store accepts the removal of the
  temporary lint file.
\<close>

theorem validate_strategy_warnings_and_score:
  "(lang \<noteq> ''python'' \<or> removable w (temp_path g) \<longrightarrow>
      (\<exists>r. fst (validate_strategy g w src lang) = Inr r))
   \<and> (\<forall>r. fst (validate_strategy g w src lang) = Inr r \<longrightarrow>
          valid r = (errors r = [])
          \<and> score r = 100 - 20 * int (count_list (warnings r) ''Missing OnData method'')
          \<and> set (warnings r) \<subseteq> {''Missing OnData method'', ''Linting issues found''})"
proof -
  have "valid r = (errors r = [])
      \<and> score r = 100 - 20 * int (count_list (warnings r) ''Missing OnData method'')
      \<and> set (warnings r) \<subseteq> {''Missing OnData method'', ''Linting issues found''}"
    if run: "fst (validate_strategy g w src lang) = Inr r" for r
  proof -
    let ?p = "python_checks src initial_results"
    consider (py) "lang = ''python''" | (cs) "lang \<noteq> ''python''" "lang = ''csharp''"
      | (other) "lang \<noteq> ''python''" "lang \<noteq> ''csharp''"
      by blast
    then show ?thesis
    proof cases
      case py
      with run have step: "fst (lint_step g w src ?p) = Inr r"
        by (simp add: validate_strategy_def)
      note facts = lint_step_report(1-4) [OF step]
      from facts(4) show ?thesis
        using facts(1-3) by (auto simp: python_checks_initial)
    next
      case cs
      with run have "r = csharp_checks src initial_results"
        by (simp add: validate_strategy_def)
      then show ?thesis
        by (simp add: csharp_checks_initial)
    next
      case other
      with run have "r = initial_results"
        by (simp add: validate_strategy_def)
      then show ?thesis
        by (simp add: initial_results_def)
    qed
  qed
  then show ?thesis
    using validate_strategy_returns_if [of lang w g src] by blast
qed

theorem validate_strategy_warnings_and_score_witness:
  "removable world_with_strict_pylint (temp_path (StrategyGenerator None))
   \<and> fst (validate_strategy (StrategyGenerator None) world_with_strict_pylint ''import os''
     ''python'')
     = Inr \<lparr>valid = False,
            errors = [''Missing QuantConnect imports'', ''Missing Initialize method''],
            warnings = [''Missing OnData method'', ''Linting issues found''], score = 80\<rparr>
   \<and> (80 :: int) = 100 - 20 * int (count_list
         [''Missing OnData method'', ''Linting issues found''] ''Missing OnData method'')"
proof -
  let ?g = "StrategyGenerator None"
  let ?w = "world_with_strict_pylint"
  have rem: "removable ?w (temp_path ?g)"
    by (simp add: world_with_strict_pylint_def)
  then have "''python'' \<noteq> ''python'' \<or> removable ?w (temp_path ?g)"
    by simp
  from validate_strategy_warnings_and_score [THEN conjunct1, rule_format, OF this]
  obtain r where ret: "fst (validate_strategy ?g ?w ''import os'' ''python'') = Inr r"
    by blast
  note facts = validate_strategy_warnings_and_score [THEN conjunct2, rule_format, OF ret]
  have run: "fst (validate_strategy ?g ?w ''import os'' ''python'')
      = Inr \<lparr>valid = False,
             errors = [''Missing QuantConnect imports'', ''Missing Initialize method''],
             warnings = [''Missing OnData method'', ''Linting issues found''], score = 80\<rparr>"
    by (simp add: validate_strategy_def lint_step_cases world_with_strict_pylint_def
        python_checks_initial)
  with ret facts have "(80 :: int) = 100 - 20 * int (count_list
         [''Missing OnData method'', ''Linting issues found''] ''Missing OnData method'')"
    by simp
  with rem run show ?thesis
    by blast
qed

text \<open>
  The claim as stated fails where the tool reports issues on complete python text: one
  warning is present and the score is still 100.
\<close>

theorem lint_warning_keeps_score_counterexample:
  "fst (validate_strategy (StrategyGenerator None) world_with_strict_pylint
      ''class A(QCAlgorithm): def Initialize(self): pass; def OnData(self, data): pass''
      ''python'')
     = Inr \<lparr>valid = True, errors = [], warnings = [''Linting issues found''], score = 100\<rparr>"
  by (simp add: validate_strategy_def lint_step_cases world_with_strict_pylint_def
      python_checks_initial)

section \<open>Properties of the generator\<close>

lemma str_in_Nil: "str_in [] hay"
  by (cases hay) simp_all

lemma str_in_append_right: "str_in needle ys \<Longrightarrow> str_in needle (xs @ ys)"
  by (induction xs) simp_all

lemma str_in_append_left: "str_in needle xs \<Longrightarrow> str_in needle (xs @ ys)"
proof (induction xs)
  case Nil
  then show ?case by (simp add: str_in_Nil)
next
  case (Cons c cs)
  then show ?case
    using prefix_prefix [of needle "c # cs" ys] by auto
qed

lemma mock_python_tail_Initialize: "str_in ''def Initialize('' mock_python_tail"
  by (simp add: mock_python_tail_def)

lemma mock_python_tail_OnData: "str_in ''def OnData('' mock_python_tail"
  by (simp add: mock_python_tail_def)

lemma mock_python_head_imports: "str_in ''AlgorithmImports'' mock_python_head"
  by (simp add: mock_python_head_def)

lemma mock_python_markers:
  "str_in ''def Initialize('' (mock_python_head @ prompt @ mock_python_tail)"
  "str_in ''def OnData('' (mock_python_head @ prompt @ mock_python_tail)"
  "str_in ''AlgorithmImports'' (mock_python_head @ prompt @ mock_python_tail)"
  by (simp_all add: str_in_append_right str_in_append_left mock_python_tail_Initialize
      mock_python_tail_OnData mock_python_head_imports)

lemma generate_mock_strategy_result:
  "generate_mock_strategy w prompt lang =
     (\<lparr>code = (if lang = ''python'' then mock_python_head @ prompt @ mock_python_tail
               else mock_csharp_head @ prompt @ mock_csharp_tail),
       description = prompt, language = lang, timestamp = clock w (reads w)\<rparr>,
      w\<lparr>reads := Suc (reads w)\<rparr>)"
  by (simp add: generate_mock_strategy_def datetime_now_def Let_def)



lemma mock_python_report:
  assumes "fst (validate_strategy g w (code (fst (generate_mock_strategy w' prompt ''python'')))
      ''python'') = Inr r"
  shows "valid r" and "score r = 100" and "errors r = []"
    and "lint_unavailable g w (code (fst (generate_mock_strategy w' prompt ''python'')))
         \<Longrightarrow> r = \<lparr>valid = True, errors = [], warnings = [], score = 100\<rparr>"
proof -
  let ?src = "code (fst (generate_mock_strategy w' prompt ''python''))"
  have src: "?src = mock_python_head @ prompt @ mock_python_tail"
    by (simp add: generate_mock_strategy_result)
  have checks: "python_checks ?src initial_results
      = \<lparr>valid = True, errors = [], warnings = [], score = 100\<rparr>"
    unfolding src by (simp add: python_checks_initial mock_python_markers)
  from assms have step: "fst (lint_step g w ?src (python_checks ?src initial_results)) = Inr r"
    by (simp add: validate_strategy_def)
  note facts = lint_step_report [OF step]
  show "valid r" using facts(1) by (simp add: checks)
  show "score r = 100" using facts(3) by (simp add: checks)
  show "errors r = []" using facts(2) by (simp add: checks)
  show "r = \<lparr>valid = True, errors = [], warnings = [], score = 100\<rparr>"
    if "lint_unavailable g w ?src"
    using facts(5) [OF that] by (simp add: checks)
qed

text \<open>A text that contains the separator splits into at least two pieces.\<close>

lemma split_from_nonempty: "split_from sep acc s \<noteq> []"
  by (induction s arbitrary: acc) simp_all








lemma generate_strategy_cases:
  "generate_strategy g w prompt lang =
     (case client g of
        None \<Rightarrow> (Inr (fst (generate_mock_strategy w prompt lang)),
                 snd (generate_mock_strategy w prompt lang))
      | Some c \<Rightarrow>
          (case fst (call_service c w prompt lang) of
             Inr a \<Rightarrow> (Inr a, snd (call_service c w prompt lang))
           | Inl e \<Rightarrow>
               (Inr (fst (generate_mock_strategy (snd (call_service c w prompt lang))
                            prompt lang)),
                snd (generate_mock_strategy (snd (call_service c w prompt lang)) prompt lang))))"
  by (simp add: generate_strategy_def split_beta split: option.splits sum.splits prod.splits)


lemma generate_strategy_offline:
  "client g = None \<Longrightarrow>
   generate_strategy g w prompt lang
     = (Inr (fst (generate_mock_strategy w prompt lang)), w\<lparr>reads := Suc (reads w)\<rparr>)"
  by (simp add: generate_strategy_cases generate_mock_strategy_result)

text \<open>
  Claim C2. Without a client, \<^verbatim>\<open>generate_strategy\<close> for \<^verbatim>\<open>python\<close> returns text that
  contains \<^verbatim>\<open>def Initialize(\<close> and \<^verbatim>\<open>def OnData(\<close>, for every prompt. A report that
  \<^verbatim>\<open>validate_strategy\<close> returns for that text is valid with score 100 in every world, and
  with the advisory lint unavailable it has no error and no warning. A report is returned
  in every world whose store accepts the removal of the temporary lint file.
\<close>

theorem fallback_python_passes_validation:
  assumes "client g = None"
  shows "\<exists>a w1. generate_strategy g w prompt ''python'' = (Inr a, w1)
           \<and> str_in ''def Initialize('' (code a) \<and> str_in ''def OnData('' (code a)
           \<and> (\<forall>w2. removable w2 (temp_path g) \<longrightarrow>
                  (\<exists>r. fst (validate_strategy g w2 (code a) (language a)) = Inr r))
           \<and> (\<forall>w2 r. fst (validate_strategy g w2 (code a) (language a)) = Inr r \<longrightarrow>
                  valid r \<and> score r = 100
                  \<and> (lint_unavailable g w2 (code a) \<longrightarrow>
                       r = \<lparr>valid = True, errors = [], warnings = [], score = 100\<rparr>))"
proof -
  let ?a = "fst (generate_mock_strategy w prompt ''python'')"
  have gen: "generate_strategy g w prompt ''python'' = (Inr ?a, w\<lparr>reads := Suc (reads w)\<rparr>)"
    using assms by (rule generate_strategy_offline)
  have src: "code ?a = mock_python_head @ prompt @ mock_python_tail"
    and lang: "language ?a = ''python''"
    by (simp_all add: generate_mock_strategy_result)
  have "\<forall>w2 r. fst (validate_strategy g w2 (code ?a) (language ?a)) = Inr r \<longrightarrow>
      valid r \<and> score r = 100
      \<and> (lint_unavailable g w2 (code ?a) \<longrightarrow>
           r = \<lparr>valid = True, errors = [], warnings = [], score = 100\<rparr>)"
    unfolding lang using mock_python_report(1,2,4) by blast
  moreover have "\<forall>w2. removable w2 (temp_path g) \<longrightarrow>
      (\<exists>r. fst (validate_strategy g w2 (code ?a) (language ?a)) = Inr r)"
    using validate_strategy_returns by blast
  moreover have "str_in ''def Initialize('' (code ?a)" and "str_in ''def OnData('' (code ?a)"
    unfolding src by (rule mock_python_markers)+
  ultimately show ?thesis
    using gen by blast
qed

theorem fallback_python_passes_validation_witness:
  "client (StrategyGenerator None) = None
   \<and> fst (generate_strategy (StrategyGenerator None) world_without_pylint
         ''Build a trend following strategy using MACD crossovers'' ''python'')
       = Inr (fst (generate_mock_strategy world_without_pylint
           ''Build a trend following strategy using MACD crossovers'' ''python''))
   \<and> lint_unavailable (StrategyGenerator None) world_without_pylint
         (code (fst (generate_mock_strategy world_without_pylint
           ''Build a trend following strategy using MACD crossovers'' ''python'')))
   \<and> removable world_without_pylint (temp_path (StrategyGenerator None))
   \<and> fst (validate_strategy (StrategyGenerator None) world_without_pylint
         (code (fst (generate_mock_strategy world_without_pylint
           ''Build a trend following strategy using MACD crossovers'' ''python''))) ''python'')
       = Inr \<lparr>valid = True, errors = [], warnings = [], score = 100\<rparr>"
proof -
  let ?g = "StrategyGenerator None"
  let ?p = "''Build a trend following strategy using MACD crossovers''"
  let ?m = "fst (generate_mock_strategy world_without_pylint ?p ''python'')"
  have none: "client ?g = None"
    by (simp add: StrategyGenerator_def)
  have gen: "fst (generate_strategy ?g world_without_pylint ?p ''python'') = Inr ?m"
    by (simp add: generate_strategy_offline [OF none])
  have lang: "language ?m = ''python''"
    by (simp add: generate_mock_strategy_result)
  have off: "lint_unavailable ?g world_without_pylint (code ?m)"
    by (simp add: lint_unavailable_def world_without_pylint_def)
  have rem: "removable world_without_pylint (temp_path ?g)"
    by (simp add: world_without_pylint_def)
  from fallback_python_passes_validation [OF none, of world_without_pylint ?p]
  obtain a w1 where
    "generate_strategy ?g world_without_pylint ?p ''python'' = (Inr a, w1)"
    and returns: "\<forall>w2. removable w2 (temp_path ?g) \<longrightarrow>
        (\<exists>r. fst (validate_strategy ?g w2 (code a) (language a)) = Inr r)"
    and all: "\<forall>w2 r. fst (validate_strategy ?g w2 (code a) (language a)) = Inr r \<longrightarrow>
        valid r \<and> score r = 100
        \<and> (lint_unavailable ?g w2 (code a) \<longrightarrow>
             r = \<lparr>valid = True, errors = [], warnings = [], score = 100\<rparr>)"
    by blast
  with gen have a: "a = ?m" by simp
  from returns rem obtain r where
    run: "fst (validate_strategy ?g world_without_pylint (code ?m) ''python'') = Inr r"
    unfolding a lang by blast
  from all run off have "r = \<lparr>valid = True, errors = [], warnings = [], score = 100\<rparr>"
    unfolding a lang by blast
  with none gen off rem run show ?thesis by simp
qed




section \<open>Properties of paths\<close>

lemma split_from_plain:
  "CHR ''/'' \<notin> set e \<Longrightarrow> split_from ''/'' acc e = [rev acc @ e]"
  by (induction e arbitrary: acc) simp_all

lemma split_from_append_plain:
  "CHR ''/'' \<notin> set e \<Longrightarrow>
   split_from ''/'' acc (s @ e)
     = butlast (split_from ''/'' acc s) @ [last (split_from ''/'' acc s) @ e]"
proof (induction s arbitrary: acc)
  case Nil
  then show ?case by (simp add: split_from_plain)
next
  case (Cons c cs)
  show ?case
  proof (cases "c = CHR ''/''")
    case True
    then show ?thesis
      using Cons.IH [OF Cons.prems, of "[]"] by (simp add: split_from_nonempty)
  next
    case False
    then show ?thesis
      using Cons.IH [OF Cons.prems, of "c # acc"] by simp
  qed
qed

lemma str_join_snoc:
  "str_join sep (xs @ [z]) = (if xs = [] then z else str_join sep xs @ sep @ z)"
proof (induction xs)
  case Nil
  then show ?case by simp
next
  case (Cons x xs)
  then show ?case by (cases xs) simp_all
qed

lemma path_parts_append_plain:
  assumes "CHR ''/'' \<notin> set e" and "2 \<le> length e"
  shows "path_parts (stem @ e)
     = filter (\<lambda>c. c \<noteq> [] \<and> c \<noteq> ''.'') (butlast (split_from ''/'' [] stem))
       @ [last (split_from ''/'' [] stem) @ e]"
proof -
  let ?y = "last (split_from ''/'' [] stem)"
  have long: "2 \<le> length (?y @ e)"
    using assms(2) by simp
  have "?y @ e \<noteq> ''.''"
  proof
    assume "?y @ e = ''.''"
    then have "length (?y @ e) = length ''.''"
      by (rule arg_cong)
    with long show False by simp
  qed
  moreover have "?y @ e \<noteq> []"
    using assms(2) by auto
  ultimately show ?thesis
    by (simp add: path_parts_def split_from_append_plain [OF assms(1)])
qed

lemma path_root_append_plain:
  assumes "CHR ''/'' \<notin> set e"
  shows "path_root (stem @ e) = path_root stem"
proof -
  have e: "\<not> prefix ''/'' e"
    using assms by (cases e) auto
  have one: "prefix ''/'' (stem @ e) = prefix ''/'' stem"
    using e by (cases stem) simp_all
  have two: "prefix ''//'' (stem @ e) = prefix ''//'' stem"
  proof (cases stem)
    case Nil
    then show ?thesis using assms by (cases e) auto
  next
    case (Cons a as)
    then show ?thesis using e by (cases as) simp_all
  qed
  have three: "prefix ''///'' (stem @ e) = prefix ''///'' stem"
  proof (cases stem)
    case Nil
    then show ?thesis using assms by (cases e) auto
  next
    case outer: (Cons a as)
    show ?thesis
    proof (cases as)
      case Nil
      then show ?thesis using outer assms by (cases e) auto
    next
      case (Cons b bs)
      then show ?thesis using outer e by (cases bs) simp_all
    qed
  qed
  show ?thesis
    by (simp only: path_root_def one two three)
qed

text \<open>
  A name that ends in an extension keeps it under \<^verbatim>\<open>pathlib\<close>: what stands in front of
  the extension depends on the directory and on the stem only.
\<close>

lemma path_join_stem:
  "\<exists>pre. \<forall>e. 2 \<le> length e \<and> CHR ''/'' \<notin> set e \<longrightarrow> path_join d (stem @ e) = pre @ e"
proof -
  let ?y = "last (split_from ''/'' [] stem)"
  let ?b = "filter (\<lambda>c. c \<noteq> [] \<and> c \<noteq> ''.'') (butlast (split_from ''/'' [] stem))"
  let ?j = "\<lambda>xs. if xs = [] then ?y else str_join ''/'' xs @ ''/'' @ ?y"
  let ?pre = "if path_root stem \<noteq> [] then path_root stem @ ?j ?b
              else path_root d @ ?j (path_parts d @ ?b)"
  have "path_join d (stem @ e) = ?pre @ e" if "2 \<le> length e \<and> CHR ''/'' \<notin> set e" for e
  proof -
    from that have plain: "CHR ''/'' \<notin> set e" and long: "2 \<le> length e"
      by simp_all
    have parts: "path_parts (stem @ e) = ?b @ [?y @ e]"
      using plain long by (rule path_parts_append_plain)
    have root: "path_root (stem @ e) = path_root stem"
      using plain by (rule path_root_append_plain)
    have joined: "str_join ''/'' (xs @ [?y @ e]) = ?j xs @ e" for xs
      by (simp add: str_join_snoc)
    show ?thesis
    proof (cases "path_root stem = []")
      case True
      have "path_join d (stem @ e) = path_root d @ str_join ''/'' ((path_parts d @ ?b) @ [?y @ e])"
        by (simp add: path_join_def root parts True path_str_def)
      then show ?thesis
        unfolding joined using True by simp
    next
      case False
      have "path_join d (stem @ e) = path_root stem @ str_join ''/'' (?b @ [?y @ e])"
        by (simp add: path_join_def root parts False path_str_def)
      then show ?thesis
        unfolding joined using False by simp
    qed
  qed
  then show ?thesis by blast
qed


lemma source_path_neq_sidecar:
  "path_join d (stem @ ''.py'') \<noteq> path_join d (stem @ ''.json'')"
  "path_join d (stem @ ''.cs'') \<noteq> path_join d (stem @ ''.json'')"
proof -
  obtain pre where pre: "\<forall>e. 2 \<le> length e \<and> CHR ''/'' \<notin> set e \<longrightarrow>
      path_join d (stem @ e) = pre @ e"
    using path_join_stem by blast
  have "path_join d (stem @ ''.py'') = pre @ ''.py''"
    "path_join d (stem @ ''.cs'') = pre @ ''.cs''"
    "path_join d (stem @ ''.json'') = pre @ ''.json''"
    using pre by simp_all
  then show "path_join d (stem @ ''.py'') \<noteq> path_join d (stem @ ''.json'')"
    "path_join d (stem @ ''.cs'') \<noteq> path_join d (stem @ ''.json'')"
    by simp_all
qed

section \<open>Properties of persistence\<close>

lemma save_strategy_accepted:
  assumes "writable w (path_join (output_dir g)
             (stem @ (if language a = ''python'' then ''.py'' else ''.cs'')))"
    and "writable w (path_join (output_dir g) (stem @ ''.json''))"
  shows "\<exists>w'. save_strategy json_dumps g w a stem
             = (Inr (path_join (output_dir g)
                       (stem @ (if language a = ''python'' then ''.py'' else ''.cs''))), w')
           \<and> files w' (path_join (output_dir g)
                 (stem @ (if language a = ''python'' then ''.py'' else ''.cs'')))
               = Some (code a)
           \<and> files w' (path_join (output_dir g) (stem @ ''.json''))
               = Some (json_dumps (sidecar_items a (path_join (output_dir g)
                   (stem @ (if language a = ''python'' then ''.py'' else ''.cs'')))))
           \<and> (\<forall>q. q \<noteq> path_join (output_dir g)
                         (stem @ (if language a = ''python'' then ''.py'' else ''.cs''))
                  \<and> q \<noteq> path_join (output_dir g) (stem @ ''.json'') \<longrightarrow>
                  files w' q = files w q)
           \<and> writable w' = writable w \<and> removable w' = removable w \<and> pylint w' = pylint w
           \<and> clock w' = clock w \<and> reads w' = reads w \<and> calls w' = calls w"
  using assms source_path_neq_sidecar [of "output_dir g" stem]
  by (auto simp: save_strategy_def write_text_def Let_def)

text \<open>
  Claim C7. When the store accepts the two writes, \<^verbatim>\<open>save_strategy\<close> returns the path
  of the source file as \<^verbatim>\<open>pathlib\<close> writes it, which ends in \<^verbatim>\<open>.py\<close> for \<^verbatim>\<open>python\<close> and in
  \<^verbatim>\<open>.cs\<close> otherwise; that file then holds exactly the code of the artifact; the sidecar
  has the same path with the extension \<^verbatim>\<open>.json\<close> in place of that extension and holds the
  serialised metadata, whose \<^verbatim>\<open>filename\<close> item is the returned path.
\<close>

theorem save_strategy_round_trip:
  assumes "writable w (path_join (output_dir g)
             (stem @ (if language a = ''python'' then ''.py'' else ''.cs'')))"
    and "writable w (path_join (output_dir g) (stem @ ''.json''))"
  shows "\<exists>p w' meta pre. save_strategy json_dumps g w a stem = (Inr p, w')
           \<and> p = path_join (output_dir g)
                 (stem @ (if language a = ''python'' then ''.py'' else ''.cs''))
           \<and> p = pre @ (if language a = ''python'' then ''.py'' else ''.cs'')
           \<and> path_join (output_dir g) (stem @ ''.json'') = pre @ ''.json''
           \<and> files w' p = Some (code a)
           \<and> files w' (pre @ ''.json'') = Some (json_dumps meta)
           \<and> meta = [(''description'', description a), (''language'', language a),
                      (''timestamp'', timestamp a), (''filename'', p)]"
proof -
  let ?ext = "if language a = ''python'' then ''.py'' else ''.cs''"
  let ?p = "path_join (output_dir g) (stem @ ?ext)"
  obtain pre where pre: "\<forall>e. 2 \<le> length e \<and> CHR ''/'' \<notin> set e \<longrightarrow>
      path_join (output_dir g) (stem @ e) = pre @ e"
    using path_join_stem by blast
  have p: "?p = pre @ ?ext" and m: "path_join (output_dir g) (stem @ ''.json'') = pre @ ''.json''"
    using pre by simp_all
  from save_strategy_accepted [OF assms, of json_dumps]
  obtain w' where "save_strategy json_dumps g w a stem = (Inr ?p, w')"
    and "files w' ?p = Some (code a)"
    and "files w' (path_join (output_dir g) (stem @ ''.json''))
      = Some (json_dumps (sidecar_items a ?p))"
    by blast
  with p m show ?thesis
    by (metis (no_types))
qed

theorem save_strategy_round_trip_witness:
  "writable world_without_pylint ''/app/generated/x.py''
   \<and> writable world_without_pylint ''/app/generated/x.json''
   \<and> path_join (output_dir (StrategyGenerator None)) ''./x.py'' = ''/app/generated/x.py''
   \<and> (\<exists>w'. save_strategy flat_dumps (StrategyGenerator None) world_without_pylint
               (fst (generate_mock_strategy world_without_pylint ''Use MACD'' ''python''))
               ''./x''
             = (Inr ''/app/generated/x.py'', w')
           \<and> files w' ''/app/generated/x.py''
               = Some (code (fst (generate_mock_strategy world_without_pylint ''Use MACD''
                   ''python'')))
           \<and> files w' ''/app/generated/x.json''
               = Some (flat_dumps
                   [(''description'', ''Use MACD''), (''language'', ''python''),
                    (''timestamp'', ''2024-01-01T00:00:00''),
                    (''filename'', ''/app/generated/x.py'')]))"
proof -
  let ?g = "StrategyGenerator None"
  let ?w = "world_without_pylint"
  let ?a = "fst (generate_mock_strategy ?w ''Use MACD'' ''python'')"
  have fields: "language ?a = ''python''" "description ?a = ''Use MACD''"
    "timestamp ?a = ''2024-01-01T00:00:00''"
    by (simp_all add: generate_mock_strategy_result world_without_pylint_def example_clock_def)
  have dir: "output_dir ?g = ''/app/generated''"
    by (simp add: StrategyGenerator_def)
  have src: "path_join ''/app/generated'' ''./x.py'' = ''/app/generated/x.py''"
    by code_simp
  have meta: "path_join ''/app/generated'' ''./x.json'' = ''/app/generated/x.json''"
    by code_simp
  have w1: "writable ?w (path_join (output_dir ?g)
      (''./x'' @ (if language ?a = ''python'' then ''.py'' else ''.cs'')))"
    by (simp add: world_without_pylint_def)
  have w2: "writable ?w (path_join (output_dir ?g) (''./x'' @ ''.json''))"
    by (simp add: world_without_pylint_def)
  from save_strategy_round_trip [OF w1 w2, of flat_dumps]
  obtain p w' m pre where
    run: "save_strategy flat_dumps ?g ?w ?a ''./x'' = (Inr p, w')"
    and p: "p = path_join (output_dir ?g)
       (''./x'' @ (if language ?a = ''python'' then ''.py'' else ''.cs''))"
    and pre: "path_join (output_dir ?g) (''./x'' @ ''.json'') = pre @ ''.json''"
    and code: "files w' p = Some (code ?a)"
    and side: "files w' (pre @ ''.json'') = Some (flat_dumps m)"
    and m: "m = [(''description'', description ?a), (''language'', language ?a),
          (''timestamp'', timestamp ?a), (''filename'', p)]"
    by blast
  have p': "p = ''/app/generated/x.py''"
    using p by (simp add: fields dir src)
  have pre': "pre @ ''.json'' = ''/app/generated/x.json''"
    using pre by (simp add: dir meta)
  have "save_strategy flat_dumps ?g ?w ?a ''./x'' = (Inr ''/app/generated/x.py'', w')
      \<and> files w' ''/app/generated/x.py'' = Some (code ?a)
      \<and> files w' ''/app/generated/x.json''
          = Some (flat_dumps
              [(''description'', ''Use MACD''), (''language'', ''python''),
               (''timestamp'', ''2024-01-01T00:00:00''),
               (''filename'', ''/app/generated/x.py'')])"
    using run code side unfolding m p' pre' fields by simp
  moreover have "path_join (output_dir ?g) ''./x.py'' = ''/app/generated/x.py''"
    by (simp add: dir src)
  moreover have "writable ?w ''/app/generated/x.py''" "writable ?w ''/app/generated/x.json''"
    by (simp_all add: world_without_pylint_def)
  ultimately show ?thesis
    by blast
qed

section \<open>Properties of the driver\<close>

























end
